theory Spec2Isabelle
  imports
    Complex_Main
    "HOL-Library.Char_ord"
    "HOL-Library.List_Lexorder"
    "HOL-Library.Product_Lexorder"
begin

section \<open>Text primitives\<close>

text \<open>
  The functions of \<^verbatim>\<open>ai_news.py\<close> work on Python \<^verbatim>\<open>str\<close> values. A text
  is modelled as a \<^typ>\<open>string\<close>, one \<^typ>\<open>char\<close> per character, read as ASCII:
  the whitespace class and the case mapping below are Python's on the ASCII range.
  Characters above 127 are carried through unchanged as caseless non-blank symbols.
  Strings are compared as Python compares them, character by character with a proper
  prefix first (the lexicographic order on lists over the order of the character codes).
\<close>

definition whitespace :: "char list" where
  "whitespace =
     [CHR 0x09, CHR 0x0A, CHR 0x0B, CHR 0x0C, CHR 0x0D,
      CHR 0x1C, CHR 0x1D, CHR 0x1E, CHR 0x1F, CHR 0x20]"

text \<open>\<^verbatim>\<open>str.isspace\<close> on one character; the class that \<^verbatim>\<open>split()\<close>,
  \<^verbatim>\<open>strip()\<close> and the pattern \<^verbatim>\<open>\s\<close> use.\<close>

definition is_space :: "char \<Rightarrow> bool" where
  "is_space c = (c \<in> set whitespace)"

text \<open>\<^verbatim>\<open>s.split()\<close>: the maximal runs of non-blank characters, in order. The first
  argument holds the characters of the token being read, last one first.\<close>

fun split_from :: "string \<Rightarrow> string \<Rightarrow> string list" where
  "split_from cur [] = (if cur = [] then [] else [rev cur])"
| "split_from cur (c # cs) =
     (if is_space c
      then (if cur = [] then split_from [] cs else rev cur # split_from [] cs)
      else split_from (c # cur) cs)"

definition split :: "string \<Rightarrow> string list" where
  "split s = split_from [] s"

text \<open>\<^verbatim>\<open>s.strip()\<close>: blanks removed at both ends.\<close>

definition strip :: "string \<Rightarrow> string" where
  "strip s = rev (dropWhile is_space (rev (dropWhile is_space s)))"

text \<open>\<^verbatim>\<open>sep.join(parts)\<close>.\<close>

fun join :: "string \<Rightarrow> string list \<Rightarrow> string" where
  "join sep [] = []"
| "join sep [p] = p"
| "join sep (p # q # ps) = p @ sep @ join sep (q # ps)"

text \<open>\<^verbatim>\<open>s.replace(old, new)\<close>: the occurrences of \<open>old\<close> are found from the left
  and do not overlap; the scan resumes after each one. With an empty \<open>old\<close>, Python
  puts \<open>new\<close> before every character and at the end.\<close>

fun replace_from :: "string \<Rightarrow> string \<Rightarrow> string \<Rightarrow> string" where
  "replace_from [] new s = s"
| "replace_from (p # ps) new [] = []"
| "replace_from (p # ps) new (c # cs) =
     (if take (Suc (length ps)) (c # cs) = p # ps
      then new @ replace_from (p # ps) new (drop (length ps) cs)
      else c # replace_from (p # ps) new cs)"

definition replace :: "string \<Rightarrow> string \<Rightarrow> string \<Rightarrow> string" where
  "replace s old new =
     (if old = [] then new @ concat (map (\<lambda>c. c # new) s)
      else replace_from old new s)"

text \<open>The case mapping of one ASCII character: a letter goes to its counterpart in
  the other alphabet, any other character stays.\<close>

definition ascii_lowercase :: string where
  "ascii_lowercase = ''abcdefghijklmnopqrstuvwxyz''"

definition ascii_uppercase :: string where
  "ascii_uppercase = ''ABCDEFGHIJKLMNOPQRSTUVWXYZ''"

definition upper :: "char \<Rightarrow> char" where
  "upper c =
     (case map_of (zip ascii_lowercase ascii_uppercase) c of None \<Rightarrow> c | Some u \<Rightarrow> u)"

definition lower :: "char \<Rightarrow> char" where
  "lower c =
     (case map_of (zip ascii_uppercase ascii_lowercase) c of None \<Rightarrow> c | Some l \<Rightarrow> l)"

text \<open>\<^verbatim>\<open>s.capitalize()\<close>: the first character in upper case, every other one in
  lower case.\<close>

fun capitalize :: "string \<Rightarrow> string" where
  "capitalize [] = []"
| "capitalize (c # cs) = upper c # map lower cs"

text \<open>\<^verbatim>\<open>re.sub(r"<.*?>", "", t)\<close>: from a \<^verbatim>\<open><\<close>, the shortest stretch up to the
  next \<^verbatim>\<open>>\<close> is dropped, provided no line feed stands between them (the dot of the
  pattern does not match a line feed); a \<^verbatim>\<open><\<close> that is not closed so stays.\<close>

function remove_tags :: "string \<Rightarrow> string" where
  "remove_tags [] = []"
| "remove_tags (c # cs) =
     (if c = CHR ''<'' then
        (case dropWhile (\<lambda>x. x \<noteq> CHR ''>'' \<and> x \<noteq> CHR 0x0A) cs of
           [] \<Rightarrow> c # remove_tags cs
         | d # ds \<Rightarrow> if d = CHR ''>'' then remove_tags ds else c # remove_tags cs)
      else c # remove_tags cs)"
  by pat_completeness auto
termination
proof (relation "measure length")
  show "wf (measure length)" by simp
next
  fix c :: char and cs d ds
  assume "dropWhile (\<lambda>x. x \<noteq> CHR ''>'' \<and> x \<noteq> CHR 0x0A) cs = d # ds"
  then have "length (d # ds) \<le> length cs"
    by (metis length_dropWhile_le)
  then show "(ds, c # cs) \<in> measure length" by simp
qed simp_all

text \<open>\<^verbatim>\<open>re.sub(r"\s+", " ", t)\<close>: every maximal run of blanks becomes one space.\<close>

function collapse_spaces :: "string \<Rightarrow> string" where
  "collapse_spaces [] = []"
| "collapse_spaces (c # cs) =
     (if is_space c then CHR '' '' # collapse_spaces (dropWhile is_space cs)
      else c # collapse_spaces cs)"
  by pat_completeness auto
termination
proof (relation "measure length")
  show "wf (measure length)" by simp
next
  fix c :: char and cs
  have "length (dropWhile is_space cs) \<le> length cs"
    by (rule length_dropWhile_le)
  then show "(dropWhile is_space cs, c # cs) \<in> measure length" by simp
qed simp_all

text \<open>\<^verbatim>\<open>clean_text\<close>: markup removed, blanks normalised.\<close>

definition clean_text :: "string \<Rightarrow> string" where
  "clean_text t = strip (collapse_spaces (remove_tags t))"

section \<open>Data model\<close>

text \<open>One row of the frame that \<^verbatim>\<open>fetch_news_rss\<close> returns.\<close>

record article =
  title :: string
  content :: string
  source :: string
  link :: string

text \<open>The pandas frame of the handler: the fetched rows, and the columns the handler
  adds one after the other (\<open>None\<close> while a column does not exist).\<close>

record dataframe =
  rows :: "article list"
  clean :: "string list option"
  combined_text :: "string list option"
  reliability :: "rat list option"

text \<open>A \<^verbatim>\<open>datetime\<close> without time zone, as the date resolver returns it for a
  text that names no zone. Python keeps the year within 1 to 9999, the month within
  1 to 12 and the day within 1 to 31. (Python refuses to order a value with a zone
  against one without; such mixed results are outside the model.)\<close>

record datetime =
  year :: nat
  month :: nat
  day :: nat
  hour :: nat
  minute :: nat
  second :: nat
  microsecond :: nat

text \<open>Python orders two such values field by field, the year first.\<close>

definition datetime_key :: "datetime \<Rightarrow> nat \<times> nat \<times> nat \<times> nat \<times> nat \<times> nat \<times> nat" where
  "datetime_key d = (year d, month d, day d, hour d, minute d, second d, microsecond d)"

definition datetime_less :: "datetime \<Rightarrow> datetime \<Rightarrow> bool" where
  "datetime_less a b = (datetime_key a < datetime_key b)"

text \<open>\<^verbatim>\<open>d.strftime("%Y-%m-%d")\<close>: the year on four digits, the month and the day on
  two, with leading zeros.\<close>

definition digit :: "nat \<Rightarrow> char" where
  "digit n = ''0123456789'' ! (n mod 10)"

definition strftime_ymd :: "datetime \<Rightarrow> string" where
  "strftime_ymd d =
     [digit (year d div 1000), digit (year d div 100), digit (year d div 10), digit (year d)]
     @ ''-'' @ [digit (month d div 10), digit (month d)]
     @ ''-'' @ [digit (day d div 10), digit (day d)]"

text \<open>One entity of a spaCy document: its label, its own text and the text of the
  sentence around it (\<^verbatim>\<open>ent.label_\<close>, \<^verbatim>\<open>ent.text\<close>, \<^verbatim>\<open>ent.sent.text\<close>).\<close>

record entity =
  label :: string
  ent_text :: string
  sent_text :: string

text \<open>One entry of the timeline (a dictionary with these five keys in the source).\<close>

record event =
  date :: datetime
  date_str :: string
  milestone :: string
  event_source :: string
  event_link :: string

text \<open>The values the handler keeps in \<^verbatim>\<open>st.session_state\<close>.\<close>

record session =
  df :: dataframe
  timeline :: "event list"
  summary :: string
  avg_score :: rat

text \<open>
  Three capabilities come from libraries and are parameters of the model:
  \<^item> \<open>nlp\<close>, the spaCy pipeline: the entities of a text, in document order;
  \<^item> \<open>summarizer\<close>, the summarisation model called with the fixed bounds of the
    source: \<open>Some\<close> summary, or \<open>None\<close> when the call raises;
  \<^item> \<open>parse\<close>, \<^verbatim>\<open>dateparser.parse\<close> with the past preferred: given the
    relative base and a text, \<open>Some\<close> date or \<open>None\<close>.
  The relative base is the clock reading \<^verbatim>\<open>pd.to_datetime('today')\<close>; the model
  takes one reading \<open>today\<close> for a whole run.
\<close>

type_synonym nlp = "string \<Rightarrow> entity list"
type_synonym summarizer = "string \<Rightarrow> string option"
type_synonym dateparser = "datetime \<Rightarrow> string \<Rightarrow> datetime option"

section \<open>Summary\<close>

text \<open>The body of the loop of \<^verbatim>\<open>summarize_articles\<close>: a text of fewer than five
  tokens goes through as it is, and so does a text on which the model raises.\<close>

definition summary_piece :: "summarizer \<Rightarrow> string \<Rightarrow> string" where
  "summary_piece summarizer text =
     (if length (split text) < 5 then text
      else (case summarizer text of Some s \<Rightarrow> s | None \<Rightarrow> text))"

text \<open>The local \<^verbatim>\<open>final_summary\<close>, before the checks on it.\<close>

definition final_summary :: "summarizer \<Rightarrow> string list \<Rightarrow> string" where
  "final_summary summarizer texts = join '' '' (map (summary_piece summarizer) texts)"

definition summarize_articles :: "summarizer \<Rightarrow> string list \<Rightarrow> string" where
  "summarize_articles summarizer texts =
     (if texts = [] then ''No text available for summary (unexpected error).''
      else if strip (final_summary summarizer texts) = []
        then ''Analysis yielded no useful summary.''
      else if length (final_summary summarizer texts) > 1000
        then take 1000 (final_summary summarizer texts) @ ''...''
      else final_summary summarizer texts)"

section \<open>Timeline\<close>

text \<open>The body of the inner loop of \<^verbatim>\<open>generate_timeline\<close> for one entity of one
  article: \<open>None\<close> where the source skips the entity.\<close>

definition entity_event :: "dateparser \<Rightarrow> datetime \<Rightarrow> article \<Rightarrow> entity \<Rightarrow> event option" where
  "entity_event parse today row ent =
     (if label ent = ''DATE'' \<or> label ent = ''EVENT'' then
        if length (split (strip (sent_text ent))) < 5 then None
        else if strip (replace (strip (sent_text ent)) (title row) []) = [] then None
        else (case parse today (ent_text ent) of
                None \<Rightarrow> None
              | Some parsed_date \<Rightarrow>
                  Some \<lparr>date = parsed_date,
                        date_str = strftime_ymd parsed_date,
                        milestone =
                          capitalize (strip (replace (strip (sent_text ent)) (title row) [])),
                        event_source = source row,
                        event_link = link row\<rparr>)
      else None)"

text \<open>The list \<^verbatim>\<open>timeline_events\<close> after the two loops: the rows in frame order,
  the entities of each row in document order.\<close>

definition timeline_events ::
  "nlp \<Rightarrow> dateparser \<Rightarrow> datetime \<Rightarrow> (article \<times> string) list \<Rightarrow> event list" where
  "timeline_events nlp parse today rs =
     concat (map (\<lambda>(row, txt). List.map_filter (entity_event parse today row) (nlp txt)) rs)"

text \<open>The dictionary \<^verbatim>\<open>unique_events\<close>, as the list of its entries in insertion
  order: an event enters only when its key is not yet there.\<close>

definition event_key :: "event \<Rightarrow> string \<times> string" where
  "event_key e = (date_str e, milestone e)"

fun unique_events :: "((string \<times> string) \<times> event) list \<Rightarrow> event list \<Rightarrow>
    ((string \<times> string) \<times> event) list" where
  "unique_events acc [] = acc"
| "unique_events acc (e # es) =
     (if map_of acc (event_key e) = None
      then unique_events (acc @ [(event_key e, e)]) es
      else unique_events acc es)"

text \<open>\<^verbatim>\<open>sorted(unique_events.values(), key=...)\<close>: a stable sort on the pair of
  date and source.\<close>

definition sorted_timeline :: "event list \<Rightarrow> event list" where
  "sorted_timeline events =
     sort_key (\<lambda>x. (datetime_key (date x), event_source x))
       (map snd (unique_events [] events))"

definition generate_timeline :: "nlp \<Rightarrow> dateparser \<Rightarrow> datetime \<Rightarrow> dataframe \<Rightarrow> event list" where
  "generate_timeline nlp parse today frame =
     (case combined_text frame of
        None \<Rightarrow> []
      | Some col \<Rightarrow> sorted_timeline (timeline_events nlp parse today (zip (rows frame) col)))"

section \<open>Reliability\<close>

text \<open>\<^verbatim>\<open>np.mean\<close> on a non-empty list (the source calls it on such lists only).
  The scores are rationals: the rounding of the floating point division is not modelled.\<close>

definition mean :: "rat list \<Rightarrow> rat" where
  "mean xs = sum_list xs / of_nat (length xs)"

definition score_source :: "string \<Rightarrow> dataframe \<Rightarrow> rat" where
  "score_source src frame =
     (let arts = filter (\<lambda>a. source a = src) (rows frame) in
      if arts = [] then 0
      else min 1 (mean (map (\<lambda>a. of_nat (length (split (content a)))) arts) / 200))"

section \<open>The handler of the button\<close>

definition get_combined_text :: "string \<Rightarrow> string \<Rightarrow> string" where
  "get_combined_text row_title row_clean =
     (if length (split row_clean) < 5 then row_title else row_clean)"

text \<open>The block under \<^verbatim>\<open>if generate:\<close>, from the frame that the fetch returned.
  The frame stored in the session is the one the handler goes on to extend.\<close>

definition generate ::
  "nlp \<Rightarrow> summarizer \<Rightarrow> dateparser \<Rightarrow> datetime \<Rightarrow> article list \<Rightarrow> session \<Rightarrow> session" where
  "generate nlp summarizer parse today fetched st =
     (if fetched \<noteq> [] then
        (let cleaned = map (\<lambda>a. clean_text (content a)) fetched;
             combined = map (\<lambda>(a, c). get_combined_text (title a) c) (zip fetched cleaned);
             frame = \<lparr>rows = fetched, clean = Some cleaned,
                      combined_text = Some combined, reliability = None\<rparr>;
             scores = map (\<lambda>a. score_source (source a) frame) fetched
         in st\<lparr>df := frame\<lparr>reliability := Some scores\<rparr>,
               summary := summarize_articles summarizer combined,
               timeline := generate_timeline nlp parse today frame,
               avg_score := mean scores\<rparr>)
      else
        st\<lparr>df := \<lparr>rows = [], clean = None, combined_text = None, reliability = None\<rparr>,
           summary := ''No news articles found.'',
           timeline := [],
           avg_score := 0\<rparr>)"

section \<open>Predicates of the specification\<close>

text \<open>Two entries stand in timeline order: the first is dated earlier, or both carry the
  same date and the source of the first is not after the source of the second.\<close>

definition in_order :: "event \<Rightarrow> event \<Rightarrow> bool" where
  "in_order m1 m2 =
     (datetime_less (date m1) (date m2) \<or>
      (date m1 = date m2 \<and> event_source m1 \<le> event_source m2))"

text \<open>The calendar date of a resolved date, without its time of day, and the order of
  two entries when the date is read as that calendar date: the first falls on an earlier
  day, or both fall on the same day and the source of the first is not after the source
  of the second.\<close>

definition calendar_date :: "datetime \<Rightarrow> nat \<times> nat \<times> nat" where
  "calendar_date d = (year d, month d, day d)"

definition in_calendar_order :: "event \<Rightarrow> event \<Rightarrow> bool" where
  "in_calendar_order m1 m2 =
     (calendar_date (date m1) < calendar_date (date m2) \<or>
      (calendar_date (date m1) = calendar_date (date m2) \<and>
       event_source m1 \<le> event_source m2))"



text \<open>\<^verbatim>\<open>s.endswith(suffix)\<close>.\<close>

definition ends_with :: "string \<Rightarrow> string \<Rightarrow> bool" where
  "ends_with s suffix =
     (length suffix \<le> length s \<and> drop (length s - length suffix) s = suffix)"

section \<open>Sample inputs\<close>

text \<open>The session before the first click (the block that initialises
  \<^verbatim>\<open>st.session_state\<close>).\<close>

definition initial_session :: session where
  "initial_session =
     \<lparr>df = \<lparr>rows = [], clean = None, combined_text = None, reliability = None\<rparr>,
      timeline = [],
      summary = ''Enter a topic and click '' @ [CHR 0x27] @ ''Generate Dashboard''
        @ [CHR 0x27] @ '' to start analysis.'',
      avg_score = 0\<rparr>"

text \<open>Two clock readings, a day apart.\<close>

definition sample_day :: datetime where
  "sample_day =
     \<lparr>year = 2026, month = 11, day = 4, hour = 9, minute = 30, second = 0, microsecond = 0\<rparr>"

definition sample_next_day :: datetime where
  "sample_next_day =
     \<lparr>year = 2026, month = 11, day = 5, hour = 9, minute = 30, second = 0, microsecond = 0\<rparr>"

text \<open>Stand-ins for the three capabilities: a recogniser that reads every text as one
  sentence with a place and the date expression \<^verbatim>\<open>today\<close> in it, a summariser that
  keeps the first three tokens, and a resolver that knows \<^verbatim>\<open>today\<close> only and
  resolves it to the relative base.\<close>

definition sample_nlp :: nlp where
  "sample_nlp txt =
     [\<lparr>label = ''GPE'', ent_text = ''Geneva'', sent_text = txt\<rparr>,
      \<lparr>label = ''DATE'', ent_text = ''today'', sent_text = txt\<rparr>]"

definition sample_summarizer :: summarizer where
  "sample_summarizer txt = Some (join '' '' (take 3 (split txt)))"

definition sample_parse :: dateparser where
  "sample_parse base txt = (if txt = ''today'' then Some base else None)"

text \<open>Three fetched articles: one with no content, and the same report from two
  sources.\<close>

definition sample_articles :: "article list" where
  "sample_articles =
     [\<lparr>title = ''Summit Begins'', content = [], source = ''Reuters'',
       link = ''https://example.org/1''\<rparr>,
      \<lparr>title = ''Treaty talks:'',
       content = ''<p>Treaty talks: the treaty was   signed today in Geneva</p>'',
       source = ''BBC'', link = ''https://example.org/2''\<rparr>,
      \<lparr>title = ''Treaty talks:'',
       content = ''<p>Treaty talks: the treaty was   signed today in Geneva</p>'',
       source = ''AP'', link = ''https://example.org/3''\<rparr>]"

text \<open>The frame of these articles at the call of \<^verbatim>\<open>generate_timeline\<close>.\<close>

definition sample_frame :: dataframe where
  "sample_frame =
     \<lparr>rows = sample_articles,
      clean = Some [[],
        ''Treaty talks: the treaty was signed today in Geneva'',
        ''Treaty talks: the treaty was signed today in Geneva''],
      combined_text = Some [''Summit Begins'',
        ''Treaty talks: the treaty was signed today in Geneva'',
        ''Treaty talks: the treaty was signed today in Geneva''],
      reliability = None\<rparr>"

text \<open>Four extracted events: the last one repeats the date label and the text of the
  first.\<close>

definition sample_date :: "nat \<Rightarrow> nat \<Rightarrow> nat \<Rightarrow> datetime" where
  "sample_date y m d =
     \<lparr>year = y, month = m, day = d, hour = 0, minute = 0, second = 0, microsecond = 0\<rparr>"

definition sample_event :: "datetime \<Rightarrow> string \<Rightarrow> string \<Rightarrow> event" where
  "sample_event d txt src =
     \<lparr>date = d, date_str = strftime_ymd d, milestone = txt, event_source = src,
      event_link = ''#''\<rparr>"

definition sample_events :: "event list" where
  "sample_events =
     [sample_event (sample_date 2020 3 15) ''Treaty signed in geneva'' ''Reuters'',
      sample_event (sample_date 2020 3 15) ''Talks held in vienna'' ''AP'',
      sample_event (sample_date 2019 12 1) ''Summit opened in paris'' ''BBC'',
      sample_event (sample_date 2020 3 15) ''Treaty signed in geneva'' ''CNN'']"

text \<open>Two extracted events of one day, resolved to two times of that day.\<close>

definition sample_time :: "nat \<Rightarrow> nat \<Rightarrow> datetime" where
  "sample_time h m =
     \<lparr>year = 2026, month = 11, day = 4, hour = h, minute = m, second = 0, microsecond = 0\<rparr>"

definition sample_same_day_events :: "event list" where
  "sample_same_day_events =
     [sample_event (sample_time 9 30) ''Talks resumed in vienna this morning'' ''AP'',
      sample_event (sample_time 7 30) ''Treaty signed in geneva at dawn'' ''Reuters'']"

section \<open>Facts about the text primitives\<close>

lemma is_space_blank: "is_space (CHR '' '')"
  by (simp add: is_space_def whitespace_def)

lemma split_from_blank: "\<forall>c\<in>set s. is_space c \<Longrightarrow> split_from [] s = []"
  by (induction s) simp_all

lemma split_from_dropWhile: "split_from [] (dropWhile is_space s) = split_from [] s"
  by (induction s) simp_all

lemma split_from_blank_tail:
  "\<forall>c\<in>set ws. is_space c \<Longrightarrow> split_from cur ws = (if cur = [] then [] else [rev cur])"
  by (cases ws) (simp_all add: split_from_blank)

lemma split_from_append_blank:
  "\<forall>c\<in>set ws. is_space c \<Longrightarrow> split_from cur (s @ ws) = split_from cur s"
proof (induction s arbitrary: cur)
  case Nil
  then show ?case by (simp add: split_from_blank_tail)
next
  case (Cons c s)
  then show ?case by simp
qed

text \<open>Trimming a text does not change its tokens.\<close>

lemma split_strip: "split (strip s) = split s"
proof -
  define t where "t = dropWhile is_space s"
  have "t = rev (dropWhile is_space (rev t)) @ rev (takeWhile is_space (rev t))"
    by (metis rev_append rev_rev_ident takeWhile_dropWhile_id)
  moreover have "\<forall>c\<in>set (rev (takeWhile is_space (rev t))). is_space c"
    by (auto dest: set_takeWhileD)
  ultimately have "split_from [] t = split_from [] (rev (dropWhile is_space (rev t)))"
    by (metis split_from_append_blank)
  then show ?thesis
    by (simp add: split_def strip_def t_def split_from_dropWhile)
qed

lemma split_from_no_blank:
  "\<forall>c\<in>set s. \<not> is_space c \<Longrightarrow>
   split_from cur s = (if cur = [] \<and> s = [] then [] else [rev cur @ s])"
  by (induction s arbitrary: cur) simp_all

lemma split_replicate_blank: "split (replicate n (CHR '' '')) = []"
  unfolding split_def by (rule split_from_blank) (simp add: is_space_blank)

lemma strip_replicate_blank: "strip (replicate n (CHR '' '')) = []"
  by (simp add: strip_def is_space_blank)

lemma not_space_a: "\<not> is_space (CHR ''a'')"
  by (simp add: is_space_def whitespace_def)

lemma split_replicate_a: "0 < n \<Longrightarrow> split (replicate n (CHR ''a'')) = [replicate n (CHR ''a'')]"
  unfolding split_def by (subst split_from_no_blank) (simp_all add: not_space_a)

lemma strip_replicate_a: "strip (replicate n (CHR ''a'')) = replicate n (CHR ''a'')"
  by (simp add: strip_def not_space_a)

lemma map_zip_self: "map (\<lambda>(a, c). f a c) (zip xs (map g xs)) = map (\<lambda>a. f a (g a)) xs"
  by (induction xs) simp_all

lemma summary_piece_short: "length (split t) < 5 \<Longrightarrow> summary_piece s t = t"
  by (simp add: summary_piece_def)

section \<open>The effective text of an article\<close>

text \<open>
  C4. For every article, the effective text is the title, unchanged, when the cleaned
  content has fewer than five tokens, and the cleaned content otherwise; an article
  titled "Summit Begins" with empty content has the effective text "Summit Begins".
  The column that the handler stores holds exactly these texts, row by row.
\<close>

theorem effective_text_title_fallback:
  "(length (split c) < 5 \<longrightarrow> get_combined_text t c = t) \<and>
   (5 \<le> length (split c) \<longrightarrow> get_combined_text t c = c) \<and>
   get_combined_text ''Summit Begins'' (clean_text []) = ''Summit Begins'' \<and>
   (fetched \<noteq> [] \<longrightarrow>
      combined_text (df (generate nlp summarizer parse today fetched st)) =
        Some (map (\<lambda>a. if length (split (clean_text (content a))) < 5 then title a
                        else clean_text (content a)) fetched))"
proof -
  have "clean_text [] = []"
    by (simp add: clean_text_def strip_def)
  then have "get_combined_text ''Summit Begins'' (clean_text []) = ''Summit Begins''"
    by (simp add: get_combined_text_def split_def)
  moreover have "fetched \<noteq> [] \<longrightarrow>
      combined_text (df (generate nlp summarizer parse today fetched st)) =
        Some (map (\<lambda>a. if length (split (clean_text (content a))) < 5 then title a
                        else clean_text (content a)) fetched)"
    by (simp add: generate_def Let_def map_zip_self get_combined_text_def)
  ultimately show ?thesis
    by (simp add: get_combined_text_def)
qed

theorem effective_text_title_fallback_witness:
  "get_combined_text ''Summit Begins'' ''too short'' = ''Summit Begins'' \<and>
   get_combined_text ''Summit Begins'' ''one two three four five'' = ''one two three four five'' \<and>
   combined_text (df (generate sample_nlp sample_summarizer sample_parse sample_day
       sample_articles initial_session)) =
     Some [''Summit Begins'',
           ''Treaty talks: the treaty was signed today in Geneva'',
           ''Treaty talks: the treaty was signed today in Geneva'']"
proof -
  have short: "length (split ''too short'') < 5" by code_simp
  have long: "5 \<le> length (split ''one two three four five'')" by code_simp
  have some: "sample_articles \<noteq> []" by (simp add: sample_articles_def)
  note t1 = effective_text_title_fallback
    [of "''too short''" "''Summit Begins''" sample_articles sample_nlp sample_summarizer
      sample_parse sample_day initial_session]
  note t2 = effective_text_title_fallback
    [of "''one two three four five''" "''Summit Begins''" sample_articles sample_nlp
      sample_summarizer sample_parse sample_day initial_session]
  from t1 short have a: "get_combined_text ''Summit Begins'' ''too short'' = ''Summit Begins''"
    by blast
  from t2 long have b:
    "get_combined_text ''Summit Begins'' ''one two three four five'' = ''one two three four five''"
    by blast
  from t1 some have "combined_text (df (generate sample_nlp sample_summarizer sample_parse
      sample_day sample_articles initial_session)) =
      Some (map (\<lambda>a. if length (split (clean_text (content a))) < 5 then title a
                      else clean_text (content a)) sample_articles)"
    by blast
  also have "\<dots> = Some [''Summit Begins'',
           ''Treaty talks: the treaty was signed today in Geneva'',
           ''Treaty talks: the treaty was signed today in Geneva'']"
    by code_simp
  finally show ?thesis using a b by simp
qed

section \<open>Empty ingestion\<close>

text \<open>
  C8. When the fetch returns no article, the handler stores the fixed summary
  "No news articles found.", an empty timeline and the aggregate score 0, whatever the
  capabilities, the clock and the previous session are. The handler is a total function,
  so this state is reached on every such run.
\<close>

theorem empty_ingestion_gives_placeholders:
  "summary (generate nlp summarizer parse today [] st) = ''No news articles found.'' \<and>
   timeline (generate nlp summarizer parse today [] st) = [] \<and>
   avg_score (generate nlp summarizer parse today [] st) = 0 \<and>
   rows (df (generate nlp summarizer parse today [] st)) = []"
  by (simp add: generate_def)

theorem empty_ingestion_gives_placeholders_witness:
  "generate sample_nlp sample_summarizer sample_parse sample_day [] initial_session =
     \<lparr>df = \<lparr>rows = [], clean = None, combined_text = None, reliability = None\<rparr>,
      timeline = [], summary = ''No news articles found.'', avg_score = 0\<rparr>"
  using empty_ingestion_gives_placeholders
    [of sample_nlp sample_summarizer sample_parse sample_day initial_session]
  by (simp add: generate_def initial_session_def)

section \<open>The summary\<close>

lemma join_map_id: "(\<forall>t\<in>set texts. f t = t) \<Longrightarrow> map f texts = texts"
  by (simp add: map_idI)

text \<open>
  C6. For every list of texts, a text of fewer than five tokens enters the summary
  unchanged, and the summary before truncation is the results for the texts, in input
  order, joined by single spaces; when every text has fewer than five tokens it is the
  input list joined by single spaces. A non-empty list whose joined summary is not blank
  and has at most 1000 characters is returned as that joined summary.
\<close>

theorem short_texts_pass_through_in_order:
  "(\<forall>t. length (split t) < 5 \<longrightarrow> summary_piece summarizer t = t) \<and>
   final_summary summarizer texts = join '' '' (map (summary_piece summarizer) texts) \<and>
   ((\<forall>t\<in>set texts. length (split t) < 5) \<longrightarrow>
      final_summary summarizer texts = join '' '' texts) \<and>
   (texts \<noteq> [] \<and> strip (final_summary summarizer texts) \<noteq> [] \<and>
    length (final_summary summarizer texts) \<le> 1000 \<longrightarrow>
      summarize_articles summarizer texts = final_summary summarizer texts)"
proof -
  have "(\<forall>t\<in>set texts. length (split t) < 5) \<longrightarrow>
      final_summary summarizer texts = join '' '' texts"
  proof
    assume "\<forall>t\<in>set texts. length (split t) < 5"
    then have "\<forall>t\<in>set texts. summary_piece summarizer t = t"
      by (simp add: summary_piece_short)
    then have "map (summary_piece summarizer) texts = texts"
      by (rule join_map_id)
    then show "final_summary summarizer texts = join '' '' texts"
      by (simp add: final_summary_def)
  qed
  then show ?thesis
    by (simp add: summary_piece_short final_summary_def summarize_articles_def)
qed

theorem short_texts_pass_through_in_order_witness:
  "summary_piece sample_summarizer ''Summit Begins'' = ''Summit Begins'' \<and>
   final_summary sample_summarizer [''Summit Begins'', ''Talks resume'', ''Deal signed''] =
     ''Summit Begins Talks resume Deal signed'' \<and>
   summarize_articles sample_summarizer [''Summit Begins'', ''Talks resume'', ''Deal signed''] =
     ''Summit Begins Talks resume Deal signed''"
proof -
  let ?texts = "[''Summit Begins'', ''Talks resume'', ''Deal signed'']"
  note t = short_texts_pass_through_in_order [of sample_summarizer ?texts]
  have short: "\<forall>t\<in>set ?texts. length (split t) < 5" by code_simp
  have one: "length (split ''Summit Begins'') < 5" by code_simp
  from t one have a: "summary_piece sample_summarizer ''Summit Begins'' = ''Summit Begins''"
    by blast
  from t short have "final_summary sample_summarizer ?texts = join '' '' ?texts"
    by blast
  then have b: "final_summary sample_summarizer ?texts = ''Summit Begins Talks resume Deal signed''"
    by simp
  have "?texts \<noteq> [] \<and> strip (final_summary sample_summarizer ?texts) \<noteq> [] \<and>
      length (final_summary sample_summarizer ?texts) \<le> 1000"
    unfolding b by code_simp
  with t have "summarize_articles sample_summarizer ?texts = final_summary sample_summarizer ?texts"
    by blast
  with a b show ?thesis by simp
qed

text \<open>
  C5, as stated, fails: one text of 1001 spaces gives a joined summary of more than 1000
  characters, and the summary returned is the fixed text for a blank summary, which does
  not end in three dots.
\<close>

theorem blank_long_summary_counterexample:
  "1000 < length (final_summary sample_summarizer [replicate 1001 (CHR '' '')]) \<and>
   \<not> ends_with (summarize_articles sample_summarizer [replicate 1001 (CHR '' '')]) ''...''"
proof -
  have fs: "final_summary sample_summarizer [replicate 1001 (CHR '' '')] = replicate 1001 (CHR '' '')"
    by (simp add: final_summary_def summary_piece_def split_replicate_blank)
  have "summarize_articles sample_summarizer [replicate 1001 (CHR '' '')] =
      ''Analysis yielded no useful summary.''"
    by (simp add: summarize_articles_def fs strip_replicate_blank)
  then show ?thesis
    by (simp add: fs ends_with_def)
qed

text \<open>
  C5, amended. For every list of texts the summary returned has at most
  1000 + len("...") characters; whenever the joined summary before truncation has more
  than 1000 characters and is not blank, the summary returned is its first 1000
  characters followed by "...".
\<close>

theorem summary_bounded_and_marked:
  "length (summarize_articles summarizer texts) \<le> 1000 + length ''...'' \<and>
   (1000 < length (final_summary summarizer texts) \<and>
    strip (final_summary summarizer texts) \<noteq> [] \<longrightarrow>
      summarize_articles summarizer texts = take 1000 (final_summary summarizer texts) @ ''...'' \<and>
      ends_with (summarize_articles summarizer texts) ''...'')"
proof -
  have "length (summarize_articles summarizer texts) \<le> 1000 + length ''...''"
    by (simp add: summarize_articles_def)
  moreover have "summarize_articles summarizer texts =
      take 1000 (final_summary summarizer texts) @ ''...''"
    if "1000 < length (final_summary summarizer texts)"
      and "strip (final_summary summarizer texts) \<noteq> []"
  proof -
    from that have "texts \<noteq> []"
      by (auto simp add: final_summary_def)
    with that show ?thesis
      by (simp add: summarize_articles_def)
  qed
  moreover have "ends_with (take 1000 (final_summary summarizer texts) @ ''...'') ''...''"
    by (simp add: ends_with_def)
  ultimately show ?thesis by simp
qed

theorem summary_bounded_and_marked_witness:
  "summarize_articles sample_summarizer [replicate 1001 (CHR ''a'')] =
     replicate 1000 (CHR ''a'') @ ''...'' \<and>
   length (summarize_articles sample_summarizer [replicate 1001 (CHR ''a'')]) = 1003"
proof -
  have fs: "final_summary sample_summarizer [replicate 1001 (CHR ''a'')] = replicate 1001 (CHR ''a'')"
    by (simp add: final_summary_def summary_piece_def split_replicate_a)
  have "1000 < length (final_summary sample_summarizer [replicate 1001 (CHR ''a'')]) \<and>
      strip (final_summary sample_summarizer [replicate 1001 (CHR ''a'')]) \<noteq> []"
    by (simp add: fs strip_replicate_a)
  with summary_bounded_and_marked [of sample_summarizer "[replicate 1001 (CHR ''a'')]"]
  have "summarize_articles sample_summarizer [replicate 1001 (CHR ''a'')] =
      take 1000 (final_summary sample_summarizer [replicate 1001 (CHR ''a'')]) @ ''...''"
    by blast
  then show ?thesis by (simp add: fs)
qed

section \<open>The reliability score\<close>

lemma mean_nonneg: "(\<And>x. x \<in> set xs \<Longrightarrow> 0 \<le> x) \<Longrightarrow> 0 \<le> mean xs"
  by (simp add: mean_def sum_list_nonneg)

text \<open>
  C7. For every source name and frame, the score of the source lies between 0 and 1; it
  is 0 when no row of the frame comes from the source, and otherwise it is the smaller of
  1 and the mean number of tokens of the raw content of the rows of the source, divided
  by 200 (in exact arithmetic).
\<close>

theorem score_source_bounded:
  "0 \<le> score_source src frame \<and> score_source src frame \<le> 1 \<and>
   (src \<notin> source ` set (rows frame) \<longrightarrow> score_source src frame = 0) \<and>
   (src \<in> source ` set (rows frame) \<longrightarrow>
      score_source src frame =
        min 1 ((\<Sum>a\<leftarrow>filter (\<lambda>a. source a = src) (rows frame).
                  of_nat (length (split (content a))))
               / of_nat (length (filter (\<lambda>a. source a = src) (rows frame))) / 200))"
proof -
  have absent: "filter (\<lambda>a. source a = src) (rows frame) = []"
    if "src \<notin> source ` set (rows frame)"
    using that by (auto simp add: filter_empty_conv)
  have present: "filter (\<lambda>a. source a = src) (rows frame) \<noteq> []"
    if "src \<in> source ` set (rows frame)"
    using that by (auto simp add: filter_empty_conv)
  have "0 \<le> score_source src frame"
    by (auto simp add: score_source_def Let_def intro!: mean_nonneg)
  moreover have "score_source src frame \<le> 1"
    by (simp add: score_source_def Let_def)
  moreover have "src \<notin> source ` set (rows frame) \<longrightarrow> score_source src frame = 0"
    using absent by (simp add: score_source_def)
  moreover have "src \<in> source ` set (rows frame) \<longrightarrow>
      score_source src frame =
        min 1 ((\<Sum>a\<leftarrow>filter (\<lambda>a. source a = src) (rows frame).
                  of_nat (length (split (content a))))
               / of_nat (length (filter (\<lambda>a. source a = src) (rows frame))) / 200)"
    using present by (simp add: score_source_def Let_def mean_def)
  ultimately show ?thesis by blast
qed

theorem score_source_bounded_witness:
  "score_source ''CNN'' sample_frame = 0 \<and> score_source ''BBC'' sample_frame = 9 / 200"
proof -
  have absent: "''CNN'' \<notin> source ` set (rows sample_frame)" by code_simp
  have present: "''BBC'' \<in> source ` set (rows sample_frame)" by code_simp
  from score_source_bounded [of "''CNN''" sample_frame] absent
  have a: "score_source ''CNN'' sample_frame = 0" by blast
  from score_source_bounded [of "''BBC''" sample_frame] present
  have "score_source ''BBC'' sample_frame =
      min 1 ((\<Sum>a\<leftarrow>filter (\<lambda>a. source a = ''BBC'') (rows sample_frame).
                of_nat (length (split (content a))))
             / of_nat (length (filter (\<lambda>a. source a = ''BBC'') (rows sample_frame))) / 200)"
    by blast
  also have "\<dots> = 9 / 200" by code_simp
  finally show ?thesis using a by simp
qed


section \<open>Facts about the timeline\<close>

subsection \<open>The dictionary of unique events\<close>

lemma unique_events_distinct:
  "distinct (map fst acc) \<Longrightarrow> distinct (map fst (unique_events acc es))"
proof (induction es arbitrary: acc)
  case Nil
  then show ?case by simp
next
  case (Cons e es)
  then show ?case by (auto simp add: map_of_eq_None_iff)
qed

lemma unique_events_keyed:
  "\<forall>p\<in>set acc. fst p = event_key (snd p) \<Longrightarrow>
   \<forall>p\<in>set (unique_events acc es). fst p = event_key (snd p)"
proof (induction es arbitrary: acc)
  case Nil
  then show ?case by simp
next
  case (Cons e es)
  show ?case
  proof (cases "map_of acc (event_key e) = None")
    case True
    from Cons.prems have "\<forall>p\<in>set (acc @ [(event_key e, e)]). fst p = event_key (snd p)"
      by simp
    from Cons.IH [OF this] True show ?thesis by simp
  next
    case False
    with Cons.IH [OF Cons.prems] show ?thesis by auto
  qed
qed

text \<open>An entry of the dictionary was there from the start, or it is the first event of
  the list with its key.\<close>

lemma unique_events_first:
  "(k, m) \<in> set (unique_events acc es) \<Longrightarrow>
   (k, m) \<in> set acc \<or> (k \<notin> fst ` set acc \<and> find (\<lambda>e. event_key e = k) es = Some m)"
proof (induction es arbitrary: acc)
  case Nil
  then show ?case by simp
next
  case (Cons e es)
  show ?case
  proof (cases "map_of acc (event_key e) = None")
    case True
    with Cons.prems have "(k, m) \<in> set (unique_events (acc @ [(event_key e, e)]) es)"
      by simp
    from Cons.IH [OF this] True show ?thesis
      by (auto simp add: map_of_eq_None_iff)
  next
    case False
    with Cons.prems have "(k, m) \<in> set (unique_events acc es)"
      by simp
    from Cons.IH [OF this] False show ?thesis
      by (auto simp add: map_of_eq_None_iff)
  qed
qed

lemma unique_events_keys:
  "fst ` set (unique_events acc es) = fst ` set acc \<union> event_key ` set es"
proof (induction es arbitrary: acc)
  case Nil
  then show ?case by simp
next
  case (Cons e es)
  show ?case
  proof (cases "map_of acc (event_key e) = None")
    case True
    then show ?thesis by (simp add: Cons.IH)
  next
    case False
    then have "event_key e \<in> fst ` set acc"
      by (simp add: map_of_eq_None_iff)
    with False show ?thesis by (simp add: Cons.IH insert_absorb)
  qed
qed

lemma map_key_unique_events:
  "map event_key (map snd (unique_events [] es)) = map fst (unique_events [] es)"
  using unique_events_keyed [of "[]" es] by (simp add: map_idI)

lemma distinct_map_sort_key: "distinct (map f (sort_key g xs)) = distinct (map f xs)"
  by (simp add: distinct_map)

lemma sorted_timeline_distinct: "distinct (map event_key (sorted_timeline es))"
  using unique_events_distinct [of "[]" es]
  by (simp add: sorted_timeline_def distinct_map_sort_key map_key_unique_events del: map_map)

lemma sorted_timeline_first:
  assumes "m \<in> set (sorted_timeline es)"
  shows "find (\<lambda>e. event_key e = event_key m) es = Some m"
proof -
  from assms obtain k where km: "(k, m) \<in> set (unique_events [] es)"
    by (auto simp add: sorted_timeline_def)
  with unique_events_keyed [of "[]" es] have "k = event_key m" by fastforce
  with unique_events_first [OF km] show ?thesis by simp
qed

lemma sorted_timeline_keys: "event_key ` set (sorted_timeline es) = event_key ` set es"
proof -
  have "event_key ` set (sorted_timeline es) = set (map event_key (map snd (unique_events [] es)))"
    by (simp add: sorted_timeline_def image_image)
  also have "\<dots> = fst ` set (unique_events [] es)"
    by (simp only: map_key_unique_events set_map)
  finally show ?thesis by (simp add: unique_events_keys)
qed

lemma set_sorted_timeline: "set (sorted_timeline es) \<subseteq> set es"
  using sorted_timeline_first by (metis find_Some_iff nth_mem subsetI)

subsection \<open>The order of the timeline\<close>

lemma datetime_key_inject: "datetime_key a = datetime_key b \<Longrightarrow> a = b"
  by (simp add: datetime_key_def)

lemma pair_le_cases:
  fixes a b :: "'a::linorder" and x y :: "'b::linorder"
  shows "(a, x) \<le> (b, y) \<Longrightarrow> a < b \<or> (a = b \<and> x \<le> y)"
  by (auto simp add: less_eq_prod_def)

lemma key_le_in_order:
  assumes "(datetime_key (date a), event_source a) \<le> (datetime_key (date b), event_source b)"
  shows "in_order a b"
proof -
  from pair_le_cases [OF assms]
  have "datetime_key (date a) < datetime_key (date b) \<or>
      (datetime_key (date a) = datetime_key (date b) \<and> event_source a \<le> event_source b)" .
  then show ?thesis
    unfolding in_order_def datetime_less_def using datetime_key_inject by blast
qed

lemma sorted_timeline_adjacent:
  assumes "Suc i < length (sorted_timeline es)"
  shows "in_order (sorted_timeline es ! i) (sorted_timeline es ! Suc i)"
proof -
  let ?k = "\<lambda>x. (datetime_key (date x), event_source x)"
  have "sorted (map ?k (sorted_timeline es))"
    by (simp add: sorted_timeline_def)
  with assms have "map ?k (sorted_timeline es) ! i \<le> map ?k (sorted_timeline es) ! Suc i"
    by (simp add: sorted_iff_nth_Suc)
  with assms show ?thesis by (simp add: key_le_in_order)
qed

text \<open>The timeline of a frame is empty, or the assembly of the events extracted from its
  rows.\<close>

lemma generate_timeline_cases:
  "generate_timeline nlp parse today frame = [] \<or>
   (\<exists>col. combined_text frame = Some col \<and>
      generate_timeline nlp parse today frame =
        sorted_timeline (timeline_events nlp parse today (zip (rows frame) col)))"
  by (cases "combined_text frame") (simp_all add: generate_timeline_def)

lemmas timeline_eval =
  sorted_timeline_def sample_events_def sample_event_def sample_date_def event_key_def
  strftime_ymd_def digit_def datetime_key_def less_eq_prod_def

lemma sorted_sample_events:
  "sorted_timeline sample_events =
     [sample_event (sample_date 2019 12 1) ''Summit opened in paris'' ''BBC'',
      sample_event (sample_date 2020 3 15) ''Talks held in vienna'' ''AP'',
      sample_event (sample_date 2020 3 15) ''Treaty signed in geneva'' ''Reuters'']"
  by (simp add: timeline_eval)

text \<open>Entries in timeline order fall on the same day, or the first on an earlier one.\<close>

lemma triple_of_less:
  fixes a a' :: "'a::linorder" and b b' :: "'b::linorder" and c c' :: "'c::linorder"
    and r r' :: "'d::linorder"
  shows "(a, b, c, r) < (a', b', c', r') \<Longrightarrow> (a, b, c) \<le> (a', b', c')"
  by (auto simp add: less_prod_def less_eq_prod_def)

lemma in_order_calendar:
  assumes "in_order a b"
  shows "calendar_date (date a) \<le> calendar_date (date b)"
proof -
  from assms consider "datetime_key (date a) < datetime_key (date b)" | "date a = date b"
    unfolding in_order_def datetime_less_def by blast
  then show ?thesis
  proof cases
    case 1
    then show ?thesis
      unfolding datetime_key_def calendar_date_def by (rule triple_of_less)
  next
    case 2
    then show ?thesis by simp
  qed
qed

lemma sorted_same_day_events:
  "sorted_timeline sample_same_day_events =
     [sample_event (sample_time 7 30) ''Treaty signed in geneva at dawn'' ''Reuters'',
      sample_event (sample_time 9 30) ''Talks resumed in vienna this morning'' ''AP'']"
  by (simp add: sorted_timeline_def sample_same_day_events_def sample_event_def
      sample_time_def event_key_def strftime_ymd_def digit_def datetime_key_def
      less_eq_prod_def)

text \<open>
  C1, as stated, fails when the date of an entry is read as its calendar date: the sort
  key of the source is the resolved date with its time of day. Two events of
  2026-11-04, one from AP resolved to 09:30 and one from Reuters resolved to 07:30, come
  out with Reuters first: both entries carry the same date label, and the source of the
  first is after the source of the second.
\<close>

theorem same_day_sources_counterexample:
  "map event_source (sorted_timeline sample_same_day_events) = [''Reuters'', ''AP''] \<and>
   map date_str (sorted_timeline sample_same_day_events) = [''2026-11-04'', ''2026-11-04''] \<and>
   \<not> in_calendar_order (sorted_timeline sample_same_day_events ! 0)
       (sorted_timeline sample_same_day_events ! Suc 0)"
  by (simp add: sorted_same_day_events sample_event_def sample_time_def strftime_ymd_def
      digit_def in_calendar_order_def calendar_date_def)

text \<open>
  C1, amended. For every list of extracted events, the timeline that the assembly returns
  is sorted on the resolved date with its time of day, then on the source: for every two
  adjacent entries m1, m2, the resolved date and time of m1 is before that of m2, or the
  two are equal and the source of m1 is at most the source of m2 in the lexical order of
  strings. The same holds of the timeline of every frame. The calendar date of m1 is
  never after the calendar date of m2.
\<close>

theorem timeline_sorted_by_date_then_source:
  "(\<forall>i. Suc i < length (sorted_timeline events) \<longrightarrow>
      in_order (sorted_timeline events ! i) (sorted_timeline events ! Suc i)) \<and>
   (\<forall>i. Suc i < length (generate_timeline nlp parse today frame) \<longrightarrow>
      in_order (generate_timeline nlp parse today frame ! i)
        (generate_timeline nlp parse today frame ! Suc i)) \<and>
   (\<forall>i. Suc i < length (sorted_timeline events) \<longrightarrow>
      calendar_date (date (sorted_timeline events ! i)) \<le>
        calendar_date (date (sorted_timeline events ! Suc i)))"
proof -
  have "in_order (generate_timeline nlp parse today frame ! i)
      (generate_timeline nlp parse today frame ! Suc i)"
    if "Suc i < length (generate_timeline nlp parse today frame)" for i
    using generate_timeline_cases [of nlp parse today frame] that
    by (auto simp add: sorted_timeline_adjacent)
  then show ?thesis
    by (simp add: sorted_timeline_adjacent in_order_calendar)
qed

theorem timeline_sorted_by_date_then_source_witness:
  "map event_source (sorted_timeline sample_events) = [''BBC'', ''AP'', ''Reuters''] \<and>
   in_order (sorted_timeline sample_events ! 0) (sorted_timeline sample_events ! Suc 0) \<and>
   in_order (sorted_timeline sample_events ! Suc 0) (sorted_timeline sample_events ! Suc (Suc 0)) \<and>
   map event_source (sorted_timeline sample_same_day_events) = [''Reuters'', ''AP''] \<and>
   in_order (sorted_timeline sample_same_day_events ! 0)
     (sorted_timeline sample_same_day_events ! Suc 0)"
proof -
  have srcs: "map event_source (sorted_timeline sample_events) = [''BBC'', ''AP'', ''Reuters'']"
    by (simp add: sorted_sample_events sample_event_def)
  then have "length (map event_source (sorted_timeline sample_events)) = 3"
    by simp
  then have len: "length (sorted_timeline sample_events) = 3"
    by simp
  note t = timeline_sorted_by_date_then_source
    [of sample_events sample_nlp sample_parse sample_day sample_frame, THEN conjunct1, rule_format]
  have a: "in_order (sorted_timeline sample_events ! 0) (sorted_timeline sample_events ! Suc 0)"
    by (rule t) (simp add: len)
  have b: "in_order (sorted_timeline sample_events ! Suc 0)
      (sorted_timeline sample_events ! Suc (Suc 0))"
    by (rule t) (simp add: len)
  have day: "map event_source (sorted_timeline sample_same_day_events) = [''Reuters'', ''AP'']"
    by (simp add: sorted_same_day_events sample_event_def)
  have "Suc 0 < length (sorted_timeline sample_same_day_events)"
    by (simp add: sorted_same_day_events)
  with timeline_sorted_by_date_then_source
    [of sample_same_day_events sample_nlp sample_parse sample_day sample_frame]
  have c: "in_order (sorted_timeline sample_same_day_events ! 0)
      (sorted_timeline sample_same_day_events ! Suc 0)"
    by blast
  from srcs a b day c show ?thesis by simp
qed

text \<open>
  C2. For every list of extracted events, the assembly keeps one entry per key, the key
  being the pair of date label and milestone text compared exactly: no two entries of the
  timeline agree on both; every entry is the first event of the list, in iteration order,
  that has its key; and every key of the list is the key of an entry.
\<close>

theorem timeline_keeps_first_of_each_key:
  "distinct (map (\<lambda>m. (date_str m, milestone m)) (sorted_timeline events)) \<and>
   (\<forall>m\<in>set (sorted_timeline events).
      find (\<lambda>e. date_str e = date_str m \<and> milestone e = milestone m) events = Some m) \<and>
   (\<forall>e\<in>set events. \<exists>m\<in>set (sorted_timeline events).
      date_str m = date_str e \<and> milestone m = milestone e) \<and>
   distinct (map (\<lambda>m. (date_str m, milestone m)) (generate_timeline nlp parse today frame))"
proof -
  have key: "event_key = (\<lambda>m. (date_str m, milestone m))"
    by (simp add: event_key_def fun_eq_iff)
  have a: "distinct (map (\<lambda>m. (date_str m, milestone m)) (sorted_timeline es))" for es
    using sorted_timeline_distinct [of es] by (simp only: key)
  have b: "find (\<lambda>e. date_str e = date_str m \<and> milestone e = milestone m) events = Some m"
    if "m \<in> set (sorted_timeline events)" for m
    using sorted_timeline_first [OF that] by (simp add: event_key_def)
  have c: "\<exists>m\<in>set (sorted_timeline events). date_str m = date_str e \<and> milestone m = milestone e"
    if "e \<in> set events" for e
  proof -
    from that have "event_key e \<in> event_key ` set (sorted_timeline events)"
      by (simp add: sorted_timeline_keys)
    then show ?thesis by (auto simp add: event_key_def)
  qed
  have d: "distinct (map (\<lambda>m. (date_str m, milestone m)) (generate_timeline nlp parse today frame))"
    using generate_timeline_cases [of nlp parse today frame] a by auto
  from a b c d show ?thesis by blast
qed

theorem timeline_keeps_first_of_each_key_witness:
  "map event_source (sorted_timeline sample_events) = [''BBC'', ''AP'', ''Reuters''] \<and>
   find (\<lambda>e. date_str e = ''2020-03-15'' \<and> milestone e = ''Treaty signed in geneva'')
     sample_events = Some (sample_event (sample_date 2020 3 15) ''Treaty signed in geneva'' ''Reuters'')"
proof -
  let ?m = "sample_event (sample_date 2020 3 15) ''Treaty signed in geneva'' ''Reuters''"
  have srcs: "map event_source (sorted_timeline sample_events) = [''BBC'', ''AP'', ''Reuters'']"
    by (simp add: sorted_sample_events sample_event_def)
  have mem: "?m \<in> set (sorted_timeline sample_events)"
    by (simp add: sorted_sample_events)
  have lbl: "date_str ?m = ''2020-03-15''" and mtxt: "milestone ?m = ''Treaty signed in geneva''"
    by (simp_all add: sample_event_def sample_date_def strftime_ymd_def digit_def)
  from timeline_keeps_first_of_each_key [of sample_events sample_nlp sample_parse sample_day
      sample_frame] mem
  have "find (\<lambda>e. date_str e = date_str ?m \<and> milestone e = milestone ?m) sample_events = Some ?m"
    by blast
  with srcs show ?thesis by (simp only: lbl mtxt)
qed


subsection \<open>The extraction of events\<close>



lemma entity_event_Some_iff:
  "entity_event parse today row ent = Some m \<longleftrightarrow>
     (label ent = ''DATE'' \<or> label ent = ''EVENT'') \<and>
     5 \<le> length (split (sent_text ent)) \<and>
     strip (replace (strip (sent_text ent)) (title row) []) \<noteq> [] \<and>
     (\<exists>d. parse today (ent_text ent) = Some d \<and>
        m = \<lparr>date = d, date_str = strftime_ymd d,
             milestone = capitalize (strip (replace (strip (sent_text ent)) (title row) [])),
             event_source = source row, event_link = link row\<rparr>)"
  by (auto simp add: entity_event_def split_strip split: option.splits)


lemma set_map_filter_iff:
  "y \<in> set (List.map_filter f xs) \<longleftrightarrow> (\<exists>x\<in>set xs. f x = Some y)"
  by (induction xs) (auto split: option.splits)

lemma set_timeline_events:
  "m \<in> set (timeline_events nlp parse today rs) \<longleftrightarrow>
     (\<exists>row txt ent. (row, txt) \<in> set rs \<and> ent \<in> set (nlp txt) \<and>
        entity_event parse today row ent = Some m)"
  by (auto simp add: timeline_events_def set_map_filter_iff)

text \<open>Every entry of the timeline of a frame was produced from an entity of the combined
  text of one of its rows.\<close>

lemma generate_timeline_origin:
  assumes "m \<in> set (generate_timeline nlp parse today frame)"
  shows "\<exists>col row txt ent. combined_text frame = Some col \<and>
     (row, txt) \<in> set (zip (rows frame) col) \<and> ent \<in> set (nlp txt) \<and>
     entity_event parse today row ent = Some m"
proof (cases "combined_text frame")
  case None
  with assms show ?thesis by (simp add: generate_timeline_def)
next
  case (Some col)
  with assms have "m \<in> set (sorted_timeline (timeline_events nlp parse today (zip (rows frame) col)))"
    by (simp add: generate_timeline_def)
  then have "m \<in> set (timeline_events nlp parse today (zip (rows frame) col))"
    using set_sorted_timeline by blast
  with Some show ?thesis by (simp add: set_timeline_events)
qed

lemma upper_not_lowercase: "upper c \<notin> set ascii_lowercase"
  by (auto simp add: upper_def ascii_lowercase_def ascii_uppercase_def)

lemma lower_not_uppercase: "lower c \<notin> set ascii_uppercase"
  by (auto simp add: lower_def ascii_lowercase_def ascii_uppercase_def)

lemma capitalize_nth:
  "i < length s \<Longrightarrow> capitalize s ! i = (if i = 0 then upper (s ! i) else lower (s ! i))"
  by (cases s; cases i) simp_all

lemma length_capitalize: "length (capitalize s) = length s"
  by (cases s) simp_all

lemma sample_sentence_tokens:
  "length (split ''Treaty talks: the treaty was signed today in Geneva'') = 9"
  by (simp add: split_def is_space_def whitespace_def)

lemma sample_sentence_strip:
  "strip ''Treaty talks: the treaty was signed today in Geneva'' =
     ''Treaty talks: the treaty was signed today in Geneva''"
  by (simp add: strip_def is_space_def whitespace_def)

lemma sample_sentence_residual:
  "strip (replace ''Treaty talks: the treaty was signed today in Geneva'' ''Treaty talks:'' []) =
     ''the treaty was signed today in Geneva''"
  by (simp add: replace_def strip_def is_space_def whitespace_def)

lemma sample_sentence_capitalize:
  "capitalize ''the treaty was signed today in Geneva'' = ''The treaty was signed today in geneva''"
  by code_simp

lemma sample_timeline:
  "generate_timeline sample_nlp sample_parse sample_day sample_frame =
     [\<lparr>date = sample_day, date_str = ''2026-11-04'',
       milestone = ''The treaty was signed today in geneva'',
       event_source = ''BBC'', event_link = ''https://example.org/2''\<rparr>]"
proof -
  have short: "length (split (strip ''Summit Begins'')) < 5"
    by (simp add: split_def strip_def is_space_def whitespace_def)
  have "timeline_events sample_nlp sample_parse sample_day
      (zip (rows sample_frame) (the (combined_text sample_frame))) =
     [\<lparr>date = sample_day, date_str = ''2026-11-04'',
       milestone = ''The treaty was signed today in geneva'',
       event_source = ''BBC'', event_link = ''https://example.org/2''\<rparr>,
      \<lparr>date = sample_day, date_str = ''2026-11-04'',
       milestone = ''The treaty was signed today in geneva'',
       event_source = ''AP'', event_link = ''https://example.org/3''\<rparr>]"
    by (simp add: timeline_events_def sample_frame_def sample_articles_def sample_nlp_def
        entity_event_def short sample_sentence_tokens sample_sentence_strip
        sample_sentence_residual sample_sentence_capitalize sample_parse_def
        strftime_ymd_def digit_def sample_day_def del: capitalize.simps)
  then show ?thesis
    by (simp add: generate_timeline_def sample_frame_def sorted_timeline_def event_key_def)
qed



text \<open>
  C10. For every entry of the timeline there are a row of the frame and an entity of its
  combined text such that the text of the entry is the capitalised residual, the
  residual being the trimmed sentence of the entity with the occurrences of the title of
  the row removed, trimmed again. Capitalising keeps the length, puts the first
  character in upper case and every other character in lower case, so the first
  character is no lower-case letter and no other character is an upper-case letter: the
  rest of the sentence is not preserved.
\<close>

theorem milestone_text_is_capitalized_residual:
  "\<forall>m\<in>set (generate_timeline nlp parse today frame).
     \<exists>col row txt ent residual. combined_text frame = Some col \<and>
       (row, txt) \<in> set (zip (rows frame) col) \<and>
       ent \<in> set (nlp txt) \<and>
       residual = strip (replace (strip (sent_text ent)) (title row) []) \<and>
       residual \<noteq> [] \<and>
       milestone m = capitalize residual \<and>
       length (milestone m) = length residual \<and>
       (\<forall>i<length residual.
          milestone m ! i = (if i = 0 then upper (residual ! i) else lower (residual ! i))) \<and>
       hd (milestone m) \<notin> set ascii_lowercase \<and>
       (\<forall>c\<in>set (tl (milestone m)). c \<notin> set ascii_uppercase)"
proof
  fix m
  assume "m \<in> set (generate_timeline nlp parse today frame)"
  from generate_timeline_origin [OF this]
  obtain col r tx e where col: "combined_text frame = Some col"
    and rt: "(r, tx) \<in> set (zip (rows frame) col)" and e: "e \<in> set (nlp tx)"
    and ev: "entity_event parse today r e = Some m"
    by blast
  define residual where "residual = strip (replace (strip (sent_text e)) (title r) [])"
  from ev have ne: "residual \<noteq> []" and ms: "milestone m = capitalize residual"
    unfolding entity_event_Some_iff residual_def by auto
  from ne obtain c cs where rc: "residual = c # cs"
    by (cases residual) auto
  have "hd (milestone m) \<notin> set ascii_lowercase"
    by (simp add: ms rc upper_not_lowercase)
  moreover have "\<forall>c\<in>set (tl (milestone m)). c \<notin> set ascii_uppercase"
    by (auto simp add: ms rc lower_not_uppercase)
  moreover have "\<forall>i<length residual.
      milestone m ! i = (if i = 0 then upper (residual ! i) else lower (residual ! i))"
    by (simp add: ms capitalize_nth)
  moreover have "length (milestone m) = length residual"
    by (simp add: ms length_capitalize)
  ultimately show "\<exists>col row txt ent residual. combined_text frame = Some col \<and>
       (row, txt) \<in> set (zip (rows frame) col) \<and>
       ent \<in> set (nlp txt) \<and>
       residual = strip (replace (strip (sent_text ent)) (title row) []) \<and>
       residual \<noteq> [] \<and>
       milestone m = capitalize residual \<and>
       length (milestone m) = length residual \<and>
       (\<forall>i<length residual.
          milestone m ! i = (if i = 0 then upper (residual ! i) else lower (residual ! i))) \<and>
       hd (milestone m) \<notin> set ascii_lowercase \<and>
       (\<forall>c\<in>set (tl (milestone m)). c \<notin> set ascii_uppercase)"
    using col rt e ne ms residual_def by (intro exI [of _ col] exI [of _ r] exI [of _ tx] exI [of _ e] exI [of _ residual]) simp
qed

theorem milestone_text_is_capitalized_residual_witness:
  "map milestone (generate_timeline sample_nlp sample_parse sample_day sample_frame) =
     [''The treaty was signed today in geneva''] \<and>
   (\<exists>col row txt ent. combined_text sample_frame = Some col \<and>
      (row, txt) \<in> set (zip (rows sample_frame) col) \<and>
      ent \<in> set (sample_nlp txt) \<and>
      ''The treaty was signed today in geneva'' =
        capitalize (strip (replace (strip (sent_text ent)) (title row) [])))"
proof -
  let ?m = "\<lparr>date = sample_day, date_str = ''2026-11-04'',
       milestone = ''The treaty was signed today in geneva'',
       event_source = ''BBC'', event_link = ''https://example.org/2''\<rparr>"
  have "?m \<in> set (generate_timeline sample_nlp sample_parse sample_day sample_frame)"
    by (simp add: sample_timeline)
  with milestone_text_is_capitalized_residual [of sample_nlp sample_parse sample_day sample_frame]
  have "\<exists>col row txt ent residual. combined_text sample_frame = Some col \<and>
       (row, txt) \<in> set (zip (rows sample_frame) col) \<and>
       ent \<in> set (sample_nlp txt) \<and>
       residual = strip (replace (strip (sent_text ent)) (title row) []) \<and>
       residual \<noteq> [] \<and>
       milestone ?m = capitalize residual \<and>
       length (milestone ?m) = length residual \<and>
       (\<forall>i<length residual.
          milestone ?m ! i = (if i = 0 then upper (residual ! i) else lower (residual ! i))) \<and>
       hd (milestone ?m) \<notin> set ascii_lowercase \<and>
       (\<forall>c\<in>set (tl (milestone ?m)). c \<notin> set ascii_uppercase)"
    by (rule bspec)
  then have "\<exists>col row txt ent. combined_text sample_frame = Some col \<and>
      (row, txt) \<in> set (zip (rows sample_frame) col) \<and>
      ent \<in> set (sample_nlp txt) \<and>
      ''The treaty was signed today in geneva'' =
        capitalize (strip (replace (strip (sent_text ent)) (title row) []))"
    by (elim exE conjE) (simp, blast)
  then show ?thesis by (simp add: sample_timeline)
qed

section \<open>Two runs of the handler\<close>

text \<open>
  C9, as stated, fails: the date resolver is called with the clock reading as relative
  base, so two runs on the same articles on two days date the expression "today"
  differently, and the two timelines differ.
\<close>

theorem runs_on_two_days_counterexample:
  "timeline (generate sample_nlp sample_summarizer sample_parse sample_day sample_articles
       initial_session) \<noteq>
   timeline (generate sample_nlp sample_summarizer sample_parse sample_next_day sample_articles
       initial_session)"
proof -
  have "map date_str (generate_timeline sample_nlp sample_parse d sample_frame) =
      [strftime_ymd d]" for d
  proof -
    have short: "length (split (strip ''Summit Begins'')) < 5"
      by (simp add: split_def strip_def is_space_def whitespace_def)
    have "map date_str (timeline_events sample_nlp sample_parse d
        (zip (rows sample_frame) (the (combined_text sample_frame)))) =
        [strftime_ymd d, strftime_ymd d]"
      by (simp add: timeline_events_def sample_frame_def sample_articles_def sample_nlp_def
          entity_event_def short sample_sentence_tokens sample_sentence_strip
          sample_sentence_residual sample_parse_def del: capitalize.simps)
    moreover have "map milestone (timeline_events sample_nlp sample_parse d
        (zip (rows sample_frame) (the (combined_text sample_frame)))) =
        [''The treaty was signed today in geneva'', ''The treaty was signed today in geneva'']"
      by (simp add: timeline_events_def sample_frame_def sample_articles_def sample_nlp_def
          entity_event_def short sample_sentence_tokens sample_sentence_strip
          sample_sentence_residual sample_sentence_capitalize sample_parse_def
          del: capitalize.simps)
    ultimately obtain e1 e2 where ev: "timeline_events sample_nlp sample_parse d
        (zip (rows sample_frame) (the (combined_text sample_frame))) = [e1, e2]"
      and keys: "event_key e1 = event_key e2" and lbl: "date_str e1 = strftime_ymd d"
      by (auto simp add: event_key_def map_eq_Cons_conv)
    have "generate_timeline sample_nlp sample_parse d sample_frame =
        sorted_timeline (timeline_events sample_nlp sample_parse d
          (zip (rows sample_frame) (the (combined_text sample_frame))))"
      by (simp add: generate_timeline_def sample_frame_def)
    then show ?thesis
      by (simp add: ev sorted_timeline_def keys lbl)
  qed
  then have "map date_str (generate_timeline sample_nlp sample_parse sample_day sample_frame) \<noteq>
      map date_str (generate_timeline sample_nlp sample_parse sample_next_day sample_frame)"
    by (simp add: strftime_ymd_def digit_def sample_day_def sample_next_day_def)
  then have "generate_timeline sample_nlp sample_parse sample_day sample_frame \<noteq>
      generate_timeline sample_nlp sample_parse sample_next_day sample_frame"
    by auto
  moreover have "timeline (generate sample_nlp sample_summarizer sample_parse d sample_articles
      initial_session) = generate_timeline sample_nlp sample_parse d sample_frame" for d
  proof -
    have "map (\<lambda>a. clean_text (content a)) sample_articles = the (clean sample_frame)"
      by code_simp
    moreover have "map (\<lambda>(a, c). get_combined_text (title a) c)
        (zip sample_articles (the (clean sample_frame))) = the (combined_text sample_frame)"
      by code_simp
    moreover have "sample_articles \<noteq> []"
      by (simp add: sample_articles_def)
    ultimately show ?thesis
      by (simp add: generate_def Let_def sample_frame_def)
  qed
  ultimately show ?thesis by simp
qed

text \<open>
  C9, amended. For every fixed article set and every fixed clock reading, a run of the
  handler stores a timeline and a summary that do not depend on the session it starts
  from, and running the handler a second time on the result of the first changes
  nothing; the summary is the same whatever the clock reads.
\<close>

theorem runs_agree_for_fixed_clock:
  "timeline (generate nlp summarizer parse today fetched st) =
     timeline (generate nlp summarizer parse today fetched st') \<and>
   summary (generate nlp summarizer parse today fetched st) =
     summary (generate nlp summarizer parse today' fetched st') \<and>
   generate nlp summarizer parse today fetched
     (generate nlp summarizer parse today fetched st) =
     generate nlp summarizer parse today fetched st"
  by (simp add: generate_def Let_def)

theorem runs_agree_for_fixed_clock_witness:
  "timeline (generate sample_nlp sample_summarizer sample_parse sample_day sample_articles
       (generate sample_nlp sample_summarizer sample_parse sample_day sample_articles
          initial_session)) =
   timeline (generate sample_nlp sample_summarizer sample_parse sample_day sample_articles
       initial_session) \<and>
   summary (generate sample_nlp sample_summarizer sample_parse sample_day sample_articles
       initial_session) =
   summary (generate sample_nlp sample_summarizer sample_parse sample_next_day sample_articles
       initial_session)"
proof -
  let ?once = "generate sample_nlp sample_summarizer sample_parse sample_day sample_articles
      initial_session"
  from runs_agree_for_fixed_clock
    [of sample_nlp sample_summarizer sample_parse sample_day sample_articles ?once
      initial_session sample_next_day]
  have "timeline (generate sample_nlp sample_summarizer sample_parse sample_day sample_articles
      ?once) = timeline ?once"
    by blast
  moreover from runs_agree_for_fixed_clock
    [of sample_nlp sample_summarizer sample_parse sample_day sample_articles initial_session
      initial_session sample_next_day]
  have "summary ?once =
      summary (generate sample_nlp sample_summarizer sample_parse sample_next_day
        sample_articles initial_session)"
    by blast
  ultimately show ?thesis by blast
qed

end
